theory Spec2Isabelle
  imports Main "HOL-Library.Word"
begin

section \<open>LEDApi: the HTTP control surface of the LED controller\<close>

text \<open>
  A shallow embedding of \<^verbatim>\<open>Firmware/LEDApi.h\<close>. The class has no state of its own: every
  handler reads the parsed JSON body, talks to \<^verbatim>\<open>LEDController\<close> (the state facade) and
  \<^verbatim>\<open>NVSManager\<close> (the persistence facade), and sends one response. The two facades, the
  JSON library's value conversions and the macro \<^verbatim>\<open>HTTP_CORS_ORIGIN\<close> are declared in
  headers that are not part of the modelled file; the handlers take them as a record of
  collaborators, so every theorem about a handler holds for each implementation of them.
\<close>

subsection \<open>JSON values\<close>

type_synonym u8 = "8 word"

text \<open>A floating-point number of the JSON library; nothing in this file looks inside it.\<close>

typedecl double

text \<open>
  A \<^verbatim>\<open>JsonVariant\<close>. An object keeps its members in insertion order, as the library's
  linked list of slots does.
\<close>

datatype json =
    JNull
  | JBool bool
  | JInt int
  | JFloat double
  | JString string
  | JArray "json list"
  | JObject "(string \<times> json) list"

type_synonym JsonObject = "(string \<times> json) list"

text \<open>
  \<^verbatim>\<open>json.as<JsonObject>()\<close>: the members of an object; for any other value the null
  object, which has no member and size 0.
\<close>

definition as_JsonObject :: "json \<Rightarrow> JsonObject" where
  "as_JsonObject v = (case v of JObject kvs \<Rightarrow> kvs | _ \<Rightarrow> [])"

definition containsKey :: "JsonObject \<Rightarrow> string \<Rightarrow> bool" where
  "containsKey obj k = (map_of obj k \<noteq> None)"

text \<open>\<^verbatim>\<open>jsonObj[key]\<close>: the member stored under the key, the null variant when there is none.\<close>

definition subscript :: "JsonObject \<Rightarrow> string \<Rightarrow> json" where
  "subscript obj k = (case map_of obj k of Some v \<Rightarrow> v | None \<Rightarrow> JNull)"

definition object_size :: "JsonObject \<Rightarrow> nat" where
  "object_size obj = length obj"

text \<open>
  Modelled from the spec: the JSON library's \<^verbatim>\<open>variant | false\<close> is not in the modelled
  file. The spec calls \<^verbatim>\<open>save\<close> an optional boolean field with default false, persisted
  only on \<^verbatim>\<open>save: true\<close>: a variant that holds a boolean reads as that boolean, every
  other variant (the null variant of a missing member too) reads as the default.
\<close>

definition or_default :: "json \<Rightarrow> bool \<Rightarrow> bool" where
  "or_default v d = (case v of JBool b \<Rightarrow> b | _ \<Rightarrow> d)"

subsection \<open>Collaborators\<close>

text \<open>
  The static interface of \<^verbatim>\<open>LEDController\<close> over its state \<open>'s\<close>, of \<^verbatim>\<open>NVSManager\<close> over
  the durable storage \<open>'n\<close>, the JSON library's \<^verbatim>\<open>as<uint8_t>()\<close>, \<^verbatim>\<open>as<bool>()\<close> and
  \<^verbatim>\<open>serializeJson\<close>, and the configured CORS origin. The getters read the state and leave
  it as it is; the number of effects is a count, read as a natural number; the values the
  savers return are discarded by every caller in the file.
\<close>

record ('s, 'n) collaborators =
  getNumEffects :: "'s \<Rightarrow> nat"
  getEffectName :: "'s \<Rightarrow> string"
  getParamsJson :: "'s \<Rightarrow> json"
  setEffect :: "u8 \<Rightarrow> 's \<Rightarrow> 's"
  setParam :: "string \<Rightarrow> json \<Rightarrow> 's \<Rightarrow> 's"
  setPower :: "bool \<Rightarrow> 's \<Rightarrow> 's"
  setBrightness :: "u8 \<Rightarrow> 's \<Rightarrow> 's"
  saveEffect :: "u8 \<Rightarrow> 'n \<Rightarrow> 'n"
  saveParams :: "string \<Rightarrow> 'n \<Rightarrow> 'n"
  saveBrightness :: "u8 \<Rightarrow> 'n \<Rightarrow> 'n"
  as_uint8 :: "json \<Rightarrow> u8"
  as_bool :: "json \<Rightarrow> bool"
  serializeJson :: "json \<Rightarrow> string"
  HTTP_CORS_ORIGIN :: string

text \<open>Every call a handler makes to one of the two facades, in the order it is made.\<close>

datatype facade_call =
    GetNumEffects
  | GetEffectName
  | GetParamsJson
  | SetEffect u8
  | SetParam string json
  | SetPower bool
  | SetBrightness u8
  | SaveEffect u8
  | SaveParams string
  | SaveBrightness u8

datatype log_entry =
    LOG_ERROR string
  | LOG_SECTION string
  | LOG_INFO string
  | LOG_DEBUG string

text \<open>
  What a handler can change: the controller's state, the durable storage, and (for the
  statements about which calls are made) the trace of facade calls and the serial log.
\<close>

record ('s, 'n) world =
  led :: 's
  nvs :: 'n
  calls :: "facade_call list"
  serial :: "log_entry list"

definition record_call :: "facade_call \<Rightarrow> ('s, 'n) world \<Rightarrow> ('s, 'n) world" where
  "record_call c w = w\<lparr>calls := calls w @ [c]\<rparr>"

definition log_line :: "log_entry \<Rightarrow> ('s, 'n) world \<Rightarrow> ('s, 'n) world" where
  "log_line e w = w\<lparr>serial := serial w @ [e]\<rparr>"

definition LEDController_getNumEffects ::
  "('s, 'n) collaborators \<Rightarrow> ('s, 'n) world \<Rightarrow> nat \<times> ('s, 'n) world" where
  "LEDController_getNumEffects E w = (getNumEffects E (led w), record_call GetNumEffects w)"

definition LEDController_getEffectName ::
  "('s, 'n) collaborators \<Rightarrow> ('s, 'n) world \<Rightarrow> string \<times> ('s, 'n) world" where
  "LEDController_getEffectName E w = (getEffectName E (led w), record_call GetEffectName w)"

definition LEDController_getParamsJson ::
  "('s, 'n) collaborators \<Rightarrow> ('s, 'n) world \<Rightarrow> json \<times> ('s, 'n) world" where
  "LEDController_getParamsJson E w = (getParamsJson E (led w), record_call GetParamsJson w)"

definition LEDController_setEffect ::
  "('s, 'n) collaborators \<Rightarrow> u8 \<Rightarrow> ('s, 'n) world \<Rightarrow> ('s, 'n) world" where
  "LEDController_setEffect E i w = record_call (SetEffect i) (w\<lparr>led := setEffect E i (led w)\<rparr>)"

definition LEDController_setParam ::
  "('s, 'n) collaborators \<Rightarrow> string \<Rightarrow> json \<Rightarrow> ('s, 'n) world \<Rightarrow> ('s, 'n) world" where
  "LEDController_setParam E k v w =
     record_call (SetParam k v) (w\<lparr>led := setParam E k v (led w)\<rparr>)"

definition LEDController_setPower ::
  "('s, 'n) collaborators \<Rightarrow> bool \<Rightarrow> ('s, 'n) world \<Rightarrow> ('s, 'n) world" where
  "LEDController_setPower E b w = record_call (SetPower b) (w\<lparr>led := setPower E b (led w)\<rparr>)"

definition LEDController_setBrightness ::
  "('s, 'n) collaborators \<Rightarrow> u8 \<Rightarrow> ('s, 'n) world \<Rightarrow> ('s, 'n) world" where
  "LEDController_setBrightness E b w =
     record_call (SetBrightness b) (w\<lparr>led := setBrightness E b (led w)\<rparr>)"

definition NVSManager_saveEffect ::
  "('s, 'n) collaborators \<Rightarrow> u8 \<Rightarrow> ('s, 'n) world \<Rightarrow> ('s, 'n) world" where
  "NVSManager_saveEffect E i w = record_call (SaveEffect i) (w\<lparr>nvs := saveEffect E i (nvs w)\<rparr>)"

definition NVSManager_saveParams ::
  "('s, 'n) collaborators \<Rightarrow> string \<Rightarrow> ('s, 'n) world \<Rightarrow> ('s, 'n) world" where
  "NVSManager_saveParams E blob w =
     record_call (SaveParams blob) (w\<lparr>nvs := saveParams E blob (nvs w)\<rparr>)"

definition NVSManager_saveBrightness ::
  "('s, 'n) collaborators \<Rightarrow> u8 \<Rightarrow> ('s, 'n) world \<Rightarrow> ('s, 'n) world" where
  "NVSManager_saveBrightness E b w =
     record_call (SaveBrightness b) (w\<lparr>nvs := saveBrightness E b (nvs w)\<rparr>)"

subsection \<open>Responses\<close>

record response =
  status_code :: int
  content_type :: string
  body :: string
  headers :: "(string \<times> string) list"

definition beginResponse :: "int \<Rightarrow> string \<Rightarrow> string \<Rightarrow> response" where
  "beginResponse code ct content =
     \<lparr>status_code = code, content_type = ct, body = content, headers = []\<rparr>"

definition addHeader :: "string \<Rightarrow> string \<Rightarrow> response \<Rightarrow> response" where
  "addHeader name val res = res\<lparr>headers := headers res @ [(name, val)]\<rparr>"

definition addCorsHeaders :: "('s, 'n) collaborators \<Rightarrow> response \<Rightarrow> response" where
  "addCorsHeaders E res =
     addHeader ''Access-Control-Allow-Headers'' ''Content-Type''
       (addHeader ''Access-Control-Allow-Methods'' ''GET, POST, OPTIONS''
         (addHeader ''Access-Control-Allow-Origin'' (HTTP_CORS_ORIGIN E) res))"

definition sendError :: "('s, 'n) collaborators \<Rightarrow> int \<Rightarrow> string \<Rightarrow> response" where
  "sendError E code message =
     (let doc = JObject [(''error'', JString message)];
          response = serializeJson E doc
      in addCorsHeaders E (beginResponse code ''application/json'' response))"

definition sendJson :: "('s, 'n) collaborators \<Rightarrow> json \<Rightarrow> response" where
  "sendJson E doc =
     (let response = serializeJson E doc
      in addCorsHeaders E (beginResponse 200 ''application/json'' response))"

subsection \<open>The four POST handlers\<close>

text \<open>
  Each handler sends exactly one response on every path; the model returns it, with the
  world after the handler's calls. The response documents have at most three short members;
  the byte capacity of a \<^verbatim>\<open>StaticJsonDocument\<close> is not modelled.
\<close>

definition handleSetEffect ::
  "('s, 'n) collaborators \<Rightarrow> json \<Rightarrow> ('s, 'n) world \<Rightarrow> response \<times> ('s, 'n) world" where
  "handleSetEffect E json w0 =
     (let w = log_line (LOG_DEBUG ''POST /api/led/effect'') w0;
          jsonObj = as_JsonObject json
      in if \<not> containsKey jsonObj ''id'' then (sendError E 400 ''Missing 'id' field'', w)
         else
           let effectId = as_uint8 E (subscript jsonObj ''id'');
               (numEffects, w1) = LEDController_getNumEffects E w
           in if unat effectId \<ge> numEffects then (sendError E 400 ''Invalid effect ID'', w1)
              else
                let w2 = LEDController_setEffect E effectId w1;
                    w3 = NVSManager_saveEffect E effectId w2;
                    (effectName, w4) = LEDController_getEffectName E w3;
                    doc = JObject [(''status'', JString ''ok''),
                                   (''effect'', JInt (uint effectId)),
                                   (''effectName'', JString effectName)]
                in (sendJson E doc, w4))"

text \<open>The loop \<^verbatim>\<open>for (JsonPair kv : jsonObj)\<close> of \<^verbatim>\<open>handleSetParams\<close>.\<close>

fun apply_params ::
  "('s, 'n) collaborators \<Rightarrow> JsonObject \<Rightarrow> ('s, 'n) world \<Rightarrow> ('s, 'n) world" where
  "apply_params E [] w = w"
| "apply_params E (kv # kvs) w = apply_params E kvs (LEDController_setParam E (fst kv) (snd kv) w)"

definition handleSetParams ::
  "('s, 'n) collaborators \<Rightarrow> json \<Rightarrow> ('s, 'n) world \<Rightarrow> response \<times> ('s, 'n) world" where
  "handleSetParams E json w0 =
     (let w = log_line (LOG_DEBUG ''POST /api/led/params'') w0;
          jsonObj = as_JsonObject json
      in if object_size jsonObj = 0 then (sendError E 400 ''Empty parameters'', w)
         else
           let w1 = apply_params E jsonObj w;
               (paramsDoc, w2) = LEDController_getParamsJson E w1;
               paramsJson = serializeJson E (subscript (as_JsonObject paramsDoc) ''params'');
               w3 = NVSManager_saveParams E paramsJson w2;
               doc = JObject [(''status'', JString ''ok''),
                              (''updated'', JInt (int (object_size jsonObj)))]
           in (sendJson E doc, w3))"

definition handlePower ::
  "('s, 'n) collaborators \<Rightarrow> json \<Rightarrow> ('s, 'n) world \<Rightarrow> response \<times> ('s, 'n) world" where
  "handlePower E json w0 =
     (let w = log_line (LOG_DEBUG ''POST /api/led/power'') w0;
          jsonObj = as_JsonObject json
      in if \<not> containsKey jsonObj ''on'' then (sendError E 400 ''Missing 'on' field'', w)
         else
           let powerOn = as_bool E (subscript jsonObj ''on'');
               w1 = LEDController_setPower E powerOn w;
               doc = JObject [(''status'', JString ''ok''), (''power'', JBool powerOn)]
           in (sendJson E doc, w1))"

definition handleBrightness ::
  "('s, 'n) collaborators \<Rightarrow> json \<Rightarrow> ('s, 'n) world \<Rightarrow> response \<times> ('s, 'n) world" where
  "handleBrightness E json w0 =
     (let w = log_line (LOG_DEBUG ''POST /api/led/brightness'') w0;
          jsonObj = as_JsonObject json
      in if \<not> containsKey jsonObj ''value'' then (sendError E 400 ''Missing 'value' field'', w)
         else
           let brightness = as_uint8 E (subscript jsonObj ''value'');
               w1 = LEDController_setBrightness E brightness w;
               shouldSave = or_default (subscript jsonObj ''save'') False;
               w2 = (if shouldSave then NVSManager_saveBrightness E brightness w1 else w1);
               doc = JObject [(''status'', JString ''ok''),
                              (''brightness'', JInt (uint brightness))]
           in (sendJson E doc, w2))"

subsection \<open>Route registration\<close>

datatype http_method = HTTP_GET | HTTP_POST | HTTP_OPTIONS

datatype route_handler =
    Preflight
  | HandleStatus
  | HandleEffects
  | HandleGetParams
  | HandleSetEffect
  | HandleSetParams
  | HandlePower
  | HandleBrightness

text \<open>
  \<open>On\<close> is \<^verbatim>\<open>server->on(uri, method, fn)\<close>; \<open>AddJsonHandler\<close> is
  \<^verbatim>\<open>server->addHandler(new AsyncCallbackJsonWebHandler(uri, fn))\<close>.
\<close>

datatype registration =
    On string http_method route_handler
  | AddJsonHandler string route_handler

record AsyncWebServer =
  registered :: "registration list"

datatype fault = NullPointerDereference

text \<open>
  The server is reached through a pointer: \<open>None\<close> is \<^verbatim>\<open>nullptr\<close>, and a call through it
  is the fault.
\<close>

definition register ::
  "registration \<Rightarrow> AsyncWebServer option \<Rightarrow> fault + AsyncWebServer option" where
  "register r server =
     (case server of
        None \<Rightarrow> Inl NullPointerDereference
      | Some s \<Rightarrow> Inr (Some (s\<lparr>registered := registered s @ [r]\<rparr>)))"

fun register_all ::
  "registration list \<Rightarrow> AsyncWebServer option \<Rightarrow> fault + AsyncWebServer option" where
  "register_all [] server = Inr server"
| "register_all (r # rs) server =
     (case register r server of Inl f \<Rightarrow> Inl f | Inr server' \<Rightarrow> register_all rs server')"

text \<open>The registrations of \<^verbatim>\<open>begin\<close>, in the order it makes them.\<close>

definition LEDApi_routes :: "registration list" where
  "LEDApi_routes =
     [On ''/api/led/*'' HTTP_OPTIONS Preflight,
      On ''/api/led/status'' HTTP_GET HandleStatus,
      On ''/api/led/effects'' HTTP_GET HandleEffects,
      On ''/api/led/params'' HTTP_GET HandleGetParams,
      AddJsonHandler ''/api/led/effect'' HandleSetEffect,
      AddJsonHandler ''/api/led/params'' HandleSetParams,
      AddJsonHandler ''/api/led/power'' HandlePower,
      AddJsonHandler ''/api/led/brightness'' HandleBrightness]"

definition LEDApi_banner :: "log_entry list" where
  "LEDApi_banner =
     [LOG_INFO ''LED API endpoints registered'',
      LOG_INFO ''  GET  /api/led/status'',
      LOG_INFO ''  GET  /api/led/effects'',
      LOG_INFO ''  GET  /api/led/params'',
      LOG_INFO ''  POST /api/led/effect'',
      LOG_INFO ''  POST /api/led/params'',
      LOG_INFO ''  POST /api/led/power'',
      LOG_INFO ''  POST /api/led/brightness'']"

text \<open>
  \<^verbatim>\<open>LEDApi::begin\<close> (\<open>begin\<close> is a keyword here, hence the prefix), on the server pointer
  and the serial log.
\<close>

definition LEDApi_begin ::
  "AsyncWebServer option \<Rightarrow> log_entry list \<Rightarrow> fault + (AsyncWebServer option \<times> log_entry list)" where
  "LEDApi_begin server lg =
     (if server = None then Inr (server, lg @ [LOG_ERROR ''LEDApi: Server is null!''])
      else
        let lg1 = lg @ [LOG_SECTION ''Initializing LED API'']
        in case register_all LEDApi_routes server of
             Inl f \<Rightarrow> Inl f
           | Inr server' \<Rightarrow> Inr (server', lg1 @ LEDApi_banner))"

subsection \<open>A concrete set of collaborators\<close>

text \<open>
  Modelled from the spec: the JSON library's \<^verbatim>\<open>as<uint8_t>()\<close> is not in the modelled file.
  The spec says the field is coerced to an 8-bit unsigned integer and that out-of-range
  inputs are truncated by the numeric conversion, not rejected: an integer is reduced modulo
  256. The spec is silent on a value that is not a number; the model reads it as 0.
\<close>

definition truncating_as_uint8 :: "json \<Rightarrow> u8" where
  "truncating_as_uint8 v = (case v of JInt i \<Rightarrow> word_of_int i | _ \<Rightarrow> 0)"

text \<open>
  Modelled from the spec: of the effect id the spec says only that it is coerced to an
  unsigned integer, not what becomes of a value that does not fit. A second conversion that
  coerces and never rejects: an integer that fits 8 bits is itself, every other value is 0.
\<close>

definition zeroing_as_uint8 :: "json \<Rightarrow> u8" where
  "zeroing_as_uint8 v =
     (case v of JInt i \<Rightarrow> if 0 \<le> i \<and> i \<le> 255 then word_of_int i else 0 | _ \<Rightarrow> 0)"

text \<open>
  The rest of this subsection is a small stand-in for the firmware around the API, used to
  run the handlers on concrete requests: three effects, a parameter list, and a storage
  with one slot per kind of saved value.
\<close>

record fake_led =
  current_effect :: u8
  params :: "(string \<times> json) list"
  power :: bool
  brightness_level :: u8

record fake_nvs =
  stored_effect :: "u8 option"
  stored_params :: "string option"
  stored_brightness :: "u8 option"

definition effect_names :: "string list" where
  "effect_names = [''Solid'', ''Rainbow'', ''Fire'']"

definition upsert :: "string \<Rightarrow> json \<Rightarrow> (string \<times> json) list \<Rightarrow> (string \<times> json) list" where
  "upsert k v kvs =
     (if map_of kvs k = None then kvs @ [(k, v)]
      else map (\<lambda>p. if fst p = k then (k, v) else p) kvs)"

definition fake_as_bool :: "json \<Rightarrow> bool" where
  "fake_as_bool v =
     (case v of JBool b \<Rightarrow> b | JInt i \<Rightarrow> i \<noteq> 0 | JNull \<Rightarrow> False | _ \<Rightarrow> True)"

definition digit :: "nat \<Rightarrow> char" where
  "digit n = ''0123456789'' ! n"

function decimal :: "nat \<Rightarrow> string" where
  "decimal n = (if n < 10 then [digit n] else decimal (n div 10) @ [digit (n mod 10)])"
  by pat_completeness auto
termination
  by (relation "measure id") auto

declare decimal.simps [simp del]

definition quoted :: "string \<Rightarrow> string" where
  "quoted s = CHR 0x22 # s @ [CHR 0x22]"

fun commas :: "string list \<Rightarrow> string" where
  "commas [] = []"
| "commas [x] = x"
| "commas (x # y # ys) = x @ '','' @ commas (y # ys)"

text \<open>
  A compact printer without string escapes; a floating-point number, which the model does
  not look into, is printed as \<^verbatim>\<open>0.0\<close>.
\<close>

fun fake_serializeJson :: "json \<Rightarrow> string" where
  "fake_serializeJson JNull = ''null''"
| "fake_serializeJson (JBool b) = (if b then ''true'' else ''false'')"
| "fake_serializeJson (JInt i) = (if i < 0 then CHR ''-'' # decimal (nat (- i)) else decimal (nat i))"
| "fake_serializeJson (JFloat d) = ''0.0''"
| "fake_serializeJson (JString s) = quoted s"
| "fake_serializeJson (JArray xs) = ''['' @ commas (map fake_serializeJson xs) @ '']''"
| "fake_serializeJson (JObject kvs) =
     ''{'' @ commas (map (\<lambda>kv. quoted (fst kv) @ '':'' @ fake_serializeJson (snd kv)) kvs) @ ''}''"

definition fake :: "(fake_led, fake_nvs) collaborators" where
  "fake =
     \<lparr>getNumEffects = (\<lambda>s. length effect_names),
      getEffectName = (\<lambda>s. if unat (current_effect s) < length effect_names
                            then effect_names ! unat (current_effect s) else ''Unknown''),
      getParamsJson = (\<lambda>s. JObject [(''effect'', JInt (uint (current_effect s))),
                                     (''params'', JObject (params s))]),
      setEffect = (\<lambda>i s. s\<lparr>current_effect := i\<rparr>),
      setParam = (\<lambda>k v s. s\<lparr>params := upsert k v (params s)\<rparr>),
      setPower = (\<lambda>b s. s\<lparr>power := b\<rparr>),
      setBrightness = (\<lambda>b s. s\<lparr>brightness_level := b\<rparr>),
      saveEffect = (\<lambda>i n. n\<lparr>stored_effect := Some i\<rparr>),
      saveParams = (\<lambda>blob n. n\<lparr>stored_params := Some blob\<rparr>),
      saveBrightness = (\<lambda>b n. n\<lparr>stored_brightness := Some b\<rparr>),
      as_uint8 = truncating_as_uint8,
      as_bool = fake_as_bool,
      serializeJson = fake_serializeJson,
      HTTP_CORS_ORIGIN = ''*''\<rparr>"

definition boot :: "(fake_led, fake_nvs) world" where
  "boot =
     \<lparr>led = \<lparr>current_effect = 0, params = [(''speed'', JInt 50), (''hue'', JInt 120)],
              power = True, brightness_level = 128\<rparr>,
      nvs = \<lparr>stored_effect = None, stored_params = None, stored_brightness = None\<rparr>,
      calls = [],
      serial = []\<rparr>"

text \<open>The same firmware while the third effect is playing.\<close>

definition playing_fire :: "(fake_led, fake_nvs) world" where
  "playing_fire = boot\<lparr>led := (led boot)\<lparr>current_effect := 2\<rparr>\<rparr>"

subsection \<open>Vocabulary of the statements\<close>

fun is_persistence_call :: "facade_call \<Rightarrow> bool" where
  "is_persistence_call (SaveEffect i) = True"
| "is_persistence_call (SaveParams blob) = True"
| "is_persistence_call (SaveBrightness b) = True"
| "is_persistence_call c = False"

text \<open>
  A request turned down: code 400, the body the one-member document \<^verbatim>\<open>{"error": message}\<close>,
  controller state and storage as before, and \<open>queries\<close> the facade calls made on the way.
\<close>

definition rejected ::
  "('s, 'n) collaborators \<Rightarrow> string \<Rightarrow> facade_call list \<Rightarrow> ('s, 'n) world \<Rightarrow>
   response \<times> ('s, 'n) world \<Rightarrow> bool" where
  "rejected E message queries w r =
     (status_code (fst r) = 400
      \<and> body (fst r) = serializeJson E (JObject [(''error'', JString message)])
      \<and> led (snd r) = led w
      \<and> nvs (snd r) = nvs w
      \<and> calls (snd r) = calls w @ queries)"

section \<open>Properties\<close>

lemmas facade_ops =
  record_call_def log_line_def
  LEDController_getNumEffects_def LEDController_getEffectName_def
  LEDController_getParamsJson_def LEDController_setEffect_def LEDController_setParam_def
  LEDController_setPower_def LEDController_setBrightness_def
  NVSManager_saveEffect_def NVSManager_saveParams_def NVSManager_saveBrightness_def

lemmas response_ops =
  sendError_def sendJson_def addCorsHeaders_def addHeader_def beginResponse_def

lemmas json_ops = as_JsonObject_def containsKey_def subscript_def object_size_def

lemmas fake_ops = fake_def boot_def truncating_as_uint8_def fake_as_bool_def effect_names_def
  upsert_def

subsection \<open>The parameter loop\<close>

lemma calls_apply_params:
  "calls (apply_params E kvs w) = calls w @ map (\<lambda>kv. SetParam (fst kv) (snd kv)) kvs"
  by (induction kvs arbitrary: w) (simp_all add: facade_ops)

lemma led_apply_params:
  "led (apply_params E kvs w) = foldl (\<lambda>s kv. setParam E (fst kv) (snd kv) s) (led w) kvs"
  by (induction kvs arbitrary: w) (simp_all add: facade_ops)

lemma nvs_apply_params: "nvs (apply_params E kvs w) = nvs w"
  by (induction kvs arbitrary: w) (simp_all add: facade_ops)

subsection \<open>POST /api/led/params\<close>

text \<open>
  C1. For a body that is a non-empty object, the handler forwards every key/value pair of
  the body once, in the body's order, to \<^verbatim>\<open>setParam\<close>; after that it reads
  \<^verbatim>\<open>getParamsJson\<close> from the controller state that results from all those calls, and makes
  exactly one persistence call: \<^verbatim>\<open>saveParams\<close> with the serialized \<^verbatim>\<open>params\<close> member of
  that document, the controller's full current parameter set and not the submitted pairs.
\<close>

theorem handleSetParams_forwards_then_saves_full_set:
  assumes nonempty: "kvs \<noteq> []"
  shows "let (res, w') = handleSetParams E (JObject kvs) w;
             led' = foldl (\<lambda>s kv. setParam E (fst kv) (snd kv) s) (led w) kvs;
             blob = serializeJson E (subscript (as_JsonObject (getParamsJson E led')) ''params'')
         in calls w' = calls w @ map (\<lambda>kv. SetParam (fst kv) (snd kv)) kvs
                         @ [GetParamsJson, SaveParams blob]
          \<and> filter is_persistence_call (calls w')
              = filter is_persistence_call (calls w) @ [SaveParams blob]
          \<and> led w' = led'
          \<and> nvs w' = saveParams E blob (nvs w)
          \<and> status_code res = 200
          \<and> body res = serializeJson E (JObject [(''status'', JString ''ok''),
                 (''updated'', JInt (int (length kvs)))])"
proof -
  have no_save: "filter is_persistence_call (map (\<lambda>kv. SetParam (fst kv) (snd kv)) kvs) = []"
    by (induction kvs) simp_all
  show ?thesis
    using nonempty
    by (simp add: handleSetParams_def Let_def json_ops response_ops
        LEDController_getParamsJson_def NVSManager_saveParams_def record_call_def log_line_def
        calls_apply_params led_apply_params nvs_apply_params no_save)
qed

text \<open>
  The request \<^verbatim>\<open>{"speed": 80, "fade": true}\<close> on a controller whose parameters are
  \<^verbatim>\<open>speed\<close> and \<^verbatim>\<open>hue\<close>: the saved blob has all three members, \<^verbatim>\<open>hue\<close> included, which
  the client did not send.
\<close>

theorem handleSetParams_forwards_then_saves_full_set_witness:
  "calls (snd (handleSetParams fake (JObject [(''speed'', JInt 80), (''fade'', JBool True)]) boot))
     = [SetParam ''speed'' (JInt 80), SetParam ''fade'' (JBool True), GetParamsJson,
        SaveParams (fake_serializeJson
          (JObject [(''speed'', JInt 80), (''hue'', JInt 120), (''fade'', JBool True)]))]
   \<and> stored_params (nvs (snd (handleSetParams fake
        (JObject [(''speed'', JInt 80), (''fade'', JBool True)]) boot)))
     = Some (fake_serializeJson
          (JObject [(''speed'', JInt 80), (''hue'', JInt 120), (''fade'', JBool True)]))"
  using handleSetParams_forwards_then_saves_full_set
    [of "[(''speed'', JInt 80), (''fade'', JBool True)]" fake boot]
  by (simp add: json_ops fake_ops Let_def split: prod.splits)

subsection \<open>POST /api/led/effect\<close>

text \<open>
  C2. The claim speaks of a body whose \<^verbatim>\<open>id\<close> has a value greater than or equal to the
  number of effects. The handler does not compare that value: it compares what
  \<^verbatim>\<open>as<uint8_t>()\<close> makes of it. As amended: when the body has the member \<^verbatim>\<open>id\<close> and the
  id, coerced to an unsigned 8-bit integer as the handler reads it, is greater than or equal
  to the number of effects the controller reports at that moment, the response is 400 with
  the error body; \<^verbatim>\<open>setEffect\<close> is not called and no persistence call is made: the one
  facade call is the query \<^verbatim>\<open>getNumEffects\<close>, and controller state and storage are as
  before.
\<close>

theorem handleSetEffect_rejects_out_of_range:
  assumes present: "containsKey (as_JsonObject json) ''id''"
    and out_of_range:
      "getNumEffects E (led w) \<le> unat (as_uint8 E (subscript (as_JsonObject json) ''id''))"
  shows "status_code (fst (handleSetEffect E json w)) = 400
       \<and> body (fst (handleSetEffect E json w)) =
           serializeJson E (JObject [(''error'', JString ''Invalid effect ID'')])
       \<and> calls (snd (handleSetEffect E json w)) = calls w @ [GetNumEffects]
       \<and> led (snd (handleSetEffect E json w)) = led w
       \<and> nvs (snd (handleSetEffect E json w)) = nvs w"
  using present out_of_range
  by (simp add: handleSetEffect_def Let_def facade_ops response_ops)

theorem handleSetEffect_rejects_out_of_range_witness:
  "status_code (fst (handleSetEffect fake (JObject [(''id'', JInt 3)]) boot)) = 400
   \<and> calls (snd (handleSetEffect fake (JObject [(''id'', JInt 3)]) boot)) = [GetNumEffects]
   \<and> led (snd (handleSetEffect fake (JObject [(''id'', JInt 3)]) boot)) = led boot
   \<and> nvs (snd (handleSetEffect fake (JObject [(''id'', JInt 3)]) boot)) = nvs boot"
  using handleSetEffect_rejects_out_of_range [of "JObject [(''id'', JInt 3)]" fake boot]
  by (simp add: json_ops fake_ops)

text \<open>
  The claim as stated fails on the body \<^verbatim>\<open>{"id": 256}\<close> with three effects and the
  truncating conversion: 256 is not below 3, yet the request is answered 200, effect 0 is
  selected and saved.
\<close>

theorem handleSetEffect_accepts_id_256:
  "int (getNumEffects fake (led boot)) \<le> 256
   \<and> status_code (fst (handleSetEffect fake (JObject [(''id'', JInt 256)]) boot)) = 200
   \<and> calls (snd (handleSetEffect fake (JObject [(''id'', JInt 256)]) boot))
       = [GetNumEffects, SetEffect 0, SaveEffect 0, GetEffectName]
   \<and> stored_effect (nvs (snd (handleSetEffect fake (JObject [(''id'', JInt 256)]) boot)))
       = Some 0"
  by (simp add: handleSetEffect_def Let_def facade_ops response_ops json_ops fake_ops)

text \<open>
  C3. When the body has the member \<^verbatim>\<open>id\<close> and the coerced id is below the number of
  effects, the handler calls \<^verbatim>\<open>setEffect\<close> with that id, then makes exactly one persistence
  call, \<^verbatim>\<open>saveEffect\<close> with the same id, and answers 200 with the document of \<^verbatim>\<open>status\<close>
  \<^verbatim>\<open>"ok"\<close>, the id, and the name the controller reports once the effect is set.
\<close>

theorem handleSetEffect_selects_and_saves:
  assumes present: "containsKey (as_JsonObject json) ''id''"
    and in_range:
      "unat (as_uint8 E (subscript (as_JsonObject json) ''id'')) < getNumEffects E (led w)"
  shows "let effectId = as_uint8 E (subscript (as_JsonObject json) ''id'');
             (res, w') = handleSetEffect E json w
         in calls w' = calls w @ [GetNumEffects, SetEffect effectId, SaveEffect effectId,
                                  GetEffectName]
          \<and> led w' = setEffect E effectId (led w)
          \<and> nvs w' = saveEffect E effectId (nvs w)
          \<and> status_code res = 200
          \<and> body res = serializeJson E (JObject [(''status'', JString ''ok''),
                 (''effect'', JInt (uint effectId)),
                 (''effectName'', JString (getEffectName E (setEffect E effectId (led w))))])"
  using present in_range
  by (simp add: handleSetEffect_def Let_def facade_ops response_ops)

theorem handleSetEffect_selects_and_saves_witness:
  "calls (snd (handleSetEffect fake (JObject [(''id'', JInt 1)]) boot))
     = [GetNumEffects, SetEffect 1, SaveEffect 1, GetEffectName]
   \<and> current_effect (led (snd (handleSetEffect fake (JObject [(''id'', JInt 1)]) boot))) = 1
   \<and> stored_effect (nvs (snd (handleSetEffect fake (JObject [(''id'', JInt 1)]) boot))) = Some 1
   \<and> status_code (fst (handleSetEffect fake (JObject [(''id'', JInt 1)]) boot)) = 200
   \<and> body (fst (handleSetEffect fake (JObject [(''id'', JInt 1)]) boot))
     = fake_serializeJson (JObject [(''status'', JString ''ok''), (''effect'', JInt 1),
         (''effectName'', JString ''Rainbow'')])"
  using handleSetEffect_selects_and_saves [of "JObject [(''id'', JInt 1)]" fake boot]
  by (simp add: json_ops fake_ops Let_def split: prod.splits)

subsection \<open>POST /api/led/brightness\<close>

text \<open>
  C4. When the body has the member \<^verbatim>\<open>value\<close>, \<^verbatim>\<open>setBrightness\<close> is called with the coerced
  value. If the member \<^verbatim>\<open>save\<close> is the boolean true, exactly one \<^verbatim>\<open>saveBrightness\<close> call
  with that same value follows; if \<^verbatim>\<open>save\<close> is missing or anything else, no persistence
  call is made and the storage is as before.
\<close>

theorem handleBrightness_saves_iff_requested:
  assumes present: "containsKey (as_JsonObject json) ''value''"
  shows "let jsonObj = as_JsonObject json;
             brightness = as_uint8 E (subscript jsonObj ''value'');
             (res, w') = handleBrightness E json w
         in led w' = setBrightness E brightness (led w)
          \<and> (if subscript jsonObj ''save'' = JBool True
             then calls w' = calls w @ [SetBrightness brightness, SaveBrightness brightness]
                \<and> nvs w' = saveBrightness E brightness (nvs w)
             else calls w' = calls w @ [SetBrightness brightness]
                \<and> nvs w' = nvs w)"
  using present
  by (simp add: handleBrightness_def Let_def facade_ops response_ops or_default_def
      split: json.splits)

theorem handleBrightness_saves_iff_requested_witness:
  "calls (snd (handleBrightness fake (JObject [(''value'', JInt 200)]) boot))
     = [SetBrightness 200]
   \<and> nvs (snd (handleBrightness fake (JObject [(''value'', JInt 200)]) boot)) = nvs boot
   \<and> calls (snd (handleBrightness fake
        (JObject [(''value'', JInt 200), (''save'', JBool True)]) boot))
     = [SetBrightness 200, SaveBrightness 200]
   \<and> stored_brightness (nvs (snd (handleBrightness fake
        (JObject [(''value'', JInt 200), (''save'', JBool True)]) boot))) = Some 200
   \<and> calls (snd (handleBrightness fake
        (JObject [(''value'', JInt 200), (''save'', JInt 1)]) boot))
     = [SetBrightness 200]"
  using handleBrightness_saves_iff_requested [of "JObject [(''value'', JInt 200)]" fake boot]
    handleBrightness_saves_iff_requested
      [of "JObject [(''value'', JInt 200), (''save'', JBool True)]" fake boot]
    handleBrightness_saves_iff_requested
      [of "JObject [(''value'', JInt 200), (''save'', JInt 1)]" fake boot]
  by (simp add: json_ops fake_ops Let_def split: prod.splits)

text \<open>
  C6. When the body has the member \<^verbatim>\<open>value\<close>, whatever that value is, the request is not
  turned down: the response is 200, and the brightness that is applied and echoed in the body
  is the value as the unsigned 8-bit conversion returns it, hence between 0 and 255.
\<close>

theorem handleBrightness_never_rejects_a_value:
  assumes present: "containsKey (as_JsonObject json) ''value''"
  shows "let brightness = as_uint8 E (subscript (as_JsonObject json) ''value'');
             (res, w') = handleBrightness E json w
         in status_code res = 200
          \<and> 0 \<le> uint brightness \<and> uint brightness \<le> 255
          \<and> SetBrightness brightness \<in> set (calls w')
          \<and> led w' = setBrightness E brightness (led w)
          \<and> body res = serializeJson E (JObject [(''status'', JString ''ok''),
                 (''brightness'', JInt (uint brightness))])"
proof -
  have "uint (as_uint8 E (subscript (as_JsonObject json) ''value'')) < 2 ^ LENGTH(8)"
    by (rule uint_lt2p)
  then have bound: "uint (as_uint8 E (subscript (as_JsonObject json) ''value'')) \<le> 255"
    by simp
  show ?thesis
    using present bound
    by (simp add: handleBrightness_def Let_def facade_ops response_ops)
qed

text \<open>The value 300 with the truncating conversion: brightness 44 is applied and echoed.\<close>

theorem handleBrightness_never_rejects_a_value_witness:
  "status_code (fst (handleBrightness fake (JObject [(''value'', JInt 300)]) boot)) = 200
   \<and> calls (snd (handleBrightness fake (JObject [(''value'', JInt 300)]) boot))
       = [SetBrightness 44]
   \<and> brightness_level (led (snd (handleBrightness fake (JObject [(''value'', JInt 300)]) boot)))
       = 44
   \<and> body (fst (handleBrightness fake (JObject [(''value'', JInt 300)]) boot))
       = fake_serializeJson (JObject [(''status'', JString ''ok''), (''brightness'', JInt 44)])"
  using handleBrightness_never_rejects_a_value [of "JObject [(''value'', JInt 300)]" fake boot]
  by (simp add: handleBrightness_def json_ops fake_ops facade_ops or_default_def Let_def
      split: prod.splits)

text \<open>
  C10. The flag \<^verbatim>\<open>save\<close> is read with the default false. Whenever the member \<^verbatim>\<open>save\<close> is
  missing, or is there and is not the boolean true, the handler does exactly what it does
  on the same body with \<^verbatim>\<open>save: false\<close> put in front: same response, same calls, same
  state, no persistence call, storage as before. A \<^verbatim>\<open>save\<close> that is the boolean true, on a
  body with \<^verbatim>\<open>value\<close>, adds the one call \<^verbatim>\<open>saveBrightness\<close>.
\<close>

theorem handleBrightness_save_defaults_to_false:
  "(subscript kvs ''save'' \<noteq> JBool True \<longrightarrow>
      handleBrightness E (JObject kvs) w
        = handleBrightness E (JObject ((''save'', JBool False) # kvs)) w
      \<and> filter is_persistence_call (calls (snd (handleBrightness E (JObject kvs) w)))
        = filter is_persistence_call (calls w)
      \<and> nvs (snd (handleBrightness E (JObject kvs) w)) = nvs w)
   \<and> (containsKey kvs ''value'' \<and> subscript kvs ''save'' = JBool True \<longrightarrow>
      filter is_persistence_call (calls (snd (handleBrightness E (JObject kvs) w)))
        = filter is_persistence_call (calls w)
            @ [SaveBrightness (as_uint8 E (subscript kvs ''value''))])"
  by (simp add: handleBrightness_def Let_def facade_ops response_ops json_ops or_default_def
      split: json.splits)

theorem handleBrightness_save_defaults_to_false_witness:
  "handleBrightness fake (JObject [(''value'', JInt 200), (''save'', JString ''yes'')]) boot
     = handleBrightness fake
         (JObject [(''save'', JBool False), (''value'', JInt 200), (''save'', JString ''yes'')]) boot
   \<and> nvs (snd (handleBrightness fake
        (JObject [(''value'', JInt 200), (''save'', JString ''yes'')]) boot)) = nvs boot
   \<and> filter is_persistence_call (calls (snd (handleBrightness fake
        (JObject [(''value'', JInt 200), (''save'', JBool True)]) boot)))
     = [SaveBrightness 200]"
proof -
  have not_true:
    "subscript [(''value'', JInt 200), (''save'', JString ''yes'')] ''save'' \<noteq> JBool True"
    by (simp add: subscript_def)
  have is_true: "containsKey [(''value'', JInt 200), (''save'', JBool True)] ''value''
      \<and> subscript [(''value'', JInt 200), (''save'', JBool True)] ''save'' = JBool True"
    by (simp add: containsKey_def subscript_def)
  have coerced:
    "as_uint8 fake (subscript [(''value'', JInt 200), (''save'', JBool True)] ''value'') = 200"
    by (simp add: fake_def truncating_as_uint8_def subscript_def)
  have fresh: "calls boot = []"
    by (simp add: boot_def)
  note ignored = handleBrightness_save_defaults_to_false
    [of "[(''value'', JInt 200), (''save'', JString ''yes'')]" fake boot,
     THEN conjunct1, rule_format, OF not_true]
  note honoured = handleBrightness_save_defaults_to_false
    [of "[(''value'', JInt 200), (''save'', JBool True)]" fake boot,
     THEN conjunct2, rule_format, OF is_true]
  show ?thesis
  proof (intro conjI)
    show "handleBrightness fake (JObject [(''value'', JInt 200), (''save'', JString ''yes'')]) boot
     = handleBrightness fake
         (JObject [(''save'', JBool False), (''value'', JInt 200), (''save'', JString ''yes'')]) boot"
      by (rule ignored [THEN conjunct1])
    show "nvs (snd (handleBrightness fake
        (JObject [(''value'', JInt 200), (''save'', JString ''yes'')]) boot)) = nvs boot"
      by (rule ignored [THEN conjunct2, THEN conjunct2])
    show "filter is_persistence_call (calls (snd (handleBrightness fake
        (JObject [(''value'', JInt 200), (''save'', JBool True)]) boot)))
     = [SaveBrightness 200]"
      using honoured coerced fresh by simp
  qed
qed

subsection \<open>POST /api/led/power\<close>

text \<open>
  C7. Whatever the body, the power handler makes no persistence call and leaves the storage
  as it was. When the body has the member \<^verbatim>\<open>on\<close>, the one facade call is \<^verbatim>\<open>setPower\<close> with
  the boolean that \<^verbatim>\<open>as<bool>()\<close> makes of it.
\<close>

theorem handlePower_never_persists:
  "nvs (snd (handlePower E json w)) = nvs w
   \<and> filter is_persistence_call (calls (snd (handlePower E json w)))
       = filter is_persistence_call (calls w)
   \<and> (containsKey (as_JsonObject json) ''on'' \<longrightarrow>
        calls (snd (handlePower E json w))
          = calls w @ [SetPower (as_bool E (subscript (as_JsonObject json) ''on''))]
        \<and> led (snd (handlePower E json w))
          = setPower E (as_bool E (subscript (as_JsonObject json) ''on'')) (led w)
        \<and> status_code (fst (handlePower E json w)) = 200)"
  by (simp add: handlePower_def Let_def facade_ops response_ops)

theorem handlePower_never_persists_witness:
  "nvs (snd (handlePower fake (JObject [(''on'', JBool False)]) boot)) = nvs boot
   \<and> calls (snd (handlePower fake (JObject [(''on'', JBool False)]) boot)) = [SetPower False]
   \<and> power (led (snd (handlePower fake (JObject [(''on'', JBool False)]) boot))) = False"
  using handlePower_never_persists [of fake "JObject [(''on'', JBool False)]" boot]
  by (simp add: json_ops fake_ops)

subsection \<open>The coerced effect id\<close>

text \<open>
  C9. The claim says that for a body id of numeric value \<open>v\<close> the comparison uses
  \<open>v mod 256\<close>. What the handler compares is what \<^verbatim>\<open>as<uint8_t>()\<close> returns, and that is
  \<open>v mod 256\<close> only when the conversion truncates. As amended: the range check is made on
  the id after its coercion to an unsigned 8-bit integer. For every conversion and every
  value of the member \<^verbatim>\<open>id\<close>, the request is accepted exactly when the coerced id is below
  the number of effects; then the coerced id is the effect that is set, saved and echoed,
  and otherwise nothing is set or saved. Where the conversion reduces the integer \<open>v\<close>
  modulo 256, the comparison uses \<open>v mod 256\<close>. In particular, whenever the conversion makes
  0 of the id 256 and there is at least one effect, the id 256 is accepted and effect 0 is
  selected and saved.
\<close>

theorem handleSetEffect_checks_coerced_id:
  assumes id: "map_of kvs ''id'' = Some x"
  shows "let c = as_uint8 E x; r = handleSetEffect E (JObject kvs) w
         in (status_code (fst r) = 200 \<longleftrightarrow> unat c < getNumEffects E (led w))
          \<and> (status_code (fst r) = 400 \<longleftrightarrow> getNumEffects E (led w) \<le> unat c)
          \<and> (unat c < getNumEffects E (led w) \<longrightarrow>
                calls (snd r) = calls w @ [GetNumEffects, SetEffect c, SaveEffect c, GetEffectName]
              \<and> led (snd r) = setEffect E c (led w)
              \<and> nvs (snd r) = saveEffect E c (nvs w)
              \<and> body (fst r) = serializeJson E (JObject [(''status'', JString ''ok''),
                   (''effect'', JInt (uint c)),
                   (''effectName'', JString (getEffectName E (setEffect E c (led w))))]))
          \<and> (getNumEffects E (led w) \<le> unat c \<longrightarrow>
                calls (snd r) = calls w @ [GetNumEffects]
              \<and> led (snd r) = led w
              \<and> nvs (snd r) = nvs w)
          \<and> (x = JInt v \<and> c = word_of_int v \<longrightarrow>
                (status_code (fst r) = 200 \<longleftrightarrow> nat (v mod 256) < getNumEffects E (led w))
              \<and> (status_code (fst r) = 400 \<longleftrightarrow> getNumEffects E (led w) \<le> nat (v mod 256))
              \<and> uint c = v mod 256)
          \<and> (x = JInt 256 \<and> c = 0 \<and> 0 < getNumEffects E (led w) \<longrightarrow>
                status_code (fst r) = 200
              \<and> calls (snd r) = calls w @ [GetNumEffects, SetEffect 0, SaveEffect 0, GetEffectName]
              \<and> led (snd r) = setEffect E 0 (led w)
              \<and> nvs (snd r) = saveEffect E 0 (nvs w)
              \<and> body (fst r) = serializeJson E (JObject [(''status'', JString ''ok''),
                   (''effect'', JInt 0),
                   (''effectName'', JString (getEffectName E (setEffect E 0 (led w))))]))"
proof -
  define c where "c = as_uint8 E x"
  define r where "r = handleSetEffect E (JObject kvs) w"
  define n where "n = getNumEffects E (led w)"
  have code: "status_code (fst r) = (if unat c < n then 200 else 400)"
    using id
    by (simp add: r_def c_def n_def handleSetEffect_def Let_def facade_ops response_ops
        json_ops not_less)
  have accepted: "calls (snd r) = calls w @ [GetNumEffects, SetEffect c, SaveEffect c, GetEffectName]
      \<and> led (snd r) = setEffect E c (led w)
      \<and> nvs (snd r) = saveEffect E c (nvs w)
      \<and> body (fst r) = serializeJson E (JObject [(''status'', JString ''ok''),
           (''effect'', JInt (uint c)),
           (''effectName'', JString (getEffectName E (setEffect E c (led w))))])"
    if "unat c < n"
    using id that
    by (simp add: r_def c_def n_def handleSetEffect_def Let_def facade_ops response_ops
        json_ops not_less)
  have refused: "calls (snd r) = calls w @ [GetNumEffects] \<and> led (snd r) = led w
      \<and> nvs (snd r) = nvs w"
    if "n \<le> unat c"
    using id that
    by (simp add: r_def c_def n_def handleSetEffect_def Let_def facade_ops response_ops
        json_ops)
  have reduced: "uint c = v mod 256 \<and> unat c = nat (v mod 256)" if "c = word_of_int v"
    using that by (simp add: unat_eq_nat_uint uint_word_of_int)
  have zero: "unat c = 0 \<and> uint c = 0" if "c = 0"
    using that by simp
  have general: "(status_code (fst r) = 200 \<longleftrightarrow> unat c < n)
      \<and> (status_code (fst r) = 400 \<longleftrightarrow> n \<le> unat c)"
    using code by (simp add: not_less)
  have truncated: "(status_code (fst r) = 200 \<longleftrightarrow> nat (v mod 256) < n)
      \<and> (status_code (fst r) = 400 \<longleftrightarrow> n \<le> nat (v mod 256))
      \<and> uint c = v mod 256"
    if "c = word_of_int v"
    using general reduced [OF that] by simp
  have at_zero: "status_code (fst r) = 200
      \<and> calls (snd r) = calls w @ [GetNumEffects, SetEffect 0, SaveEffect 0, GetEffectName]
      \<and> led (snd r) = setEffect E 0 (led w)
      \<and> nvs (snd r) = saveEffect E 0 (nvs w)
      \<and> body (fst r) = serializeJson E (JObject [(''status'', JString ''ok''),
           (''effect'', JInt 0),
           (''effectName'', JString (getEffectName E (setEffect E 0 (led w))))])"
    if "c = 0" and "0 < n"
  proof -
    from that have below: "unat c < n" by simp
    from accepted [OF below] general below that(1) show ?thesis by simp
  qed
  have "(status_code (fst r) = 200 \<longleftrightarrow> unat c < n)
      \<and> (status_code (fst r) = 400 \<longleftrightarrow> n \<le> unat c)
      \<and> (unat c < n \<longrightarrow>
            calls (snd r) = calls w @ [GetNumEffects, SetEffect c, SaveEffect c, GetEffectName]
          \<and> led (snd r) = setEffect E c (led w)
          \<and> nvs (snd r) = saveEffect E c (nvs w)
          \<and> body (fst r) = serializeJson E (JObject [(''status'', JString ''ok''),
               (''effect'', JInt (uint c)),
               (''effectName'', JString (getEffectName E (setEffect E c (led w))))]))
      \<and> (n \<le> unat c \<longrightarrow>
            calls (snd r) = calls w @ [GetNumEffects]
          \<and> led (snd r) = led w
          \<and> nvs (snd r) = nvs w)
      \<and> (x = JInt v \<and> c = word_of_int v \<longrightarrow>
            (status_code (fst r) = 200 \<longleftrightarrow> nat (v mod 256) < n)
          \<and> (status_code (fst r) = 400 \<longleftrightarrow> n \<le> nat (v mod 256))
          \<and> uint c = v mod 256)
      \<and> (x = JInt 256 \<and> c = 0 \<and> 0 < n \<longrightarrow>
            status_code (fst r) = 200
          \<and> calls (snd r) = calls w @ [GetNumEffects, SetEffect 0, SaveEffect 0, GetEffectName]
          \<and> led (snd r) = setEffect E 0 (led w)
          \<and> nvs (snd r) = saveEffect E 0 (nvs w)
          \<and> body (fst r) = serializeJson E (JObject [(''status'', JString ''ok''),
               (''effect'', JInt 0),
               (''effectName'', JString (getEffectName E (setEffect E 0 (led w))))]))"
    using general accepted refused truncated at_zero by blast
  then show ?thesis
    unfolding Let_def c_def r_def n_def .
qed

text \<open>
  While the third effect is playing: the id 256 selects effect 0 under the truncating
  conversion and under the one that returns 0 for what does not fit; under truncation 257
  selects effect 1 and 259 is refused.
\<close>

theorem handleSetEffect_checks_coerced_id_witness:
  "status_code (fst (handleSetEffect fake (JObject [(''id'', JInt 256)]) playing_fire)) = 200
   \<and> calls (snd (handleSetEffect fake (JObject [(''id'', JInt 256)]) playing_fire))
       = [GetNumEffects, SetEffect 0, SaveEffect 0, GetEffectName]
   \<and> current_effect (led playing_fire) = 2
   \<and> current_effect (led (snd (handleSetEffect fake (JObject [(''id'', JInt 256)]) playing_fire)))
       = 0
   \<and> stored_effect (nvs (snd (handleSetEffect fake (JObject [(''id'', JInt 256)]) playing_fire)))
       = Some 0
   \<and> body (fst (handleSetEffect fake (JObject [(''id'', JInt 256)]) playing_fire))
       = fake_serializeJson (JObject [(''status'', JString ''ok''), (''effect'', JInt 0),
           (''effectName'', JString ''Solid'')])
   \<and> current_effect (led (snd (handleSetEffect (fake\<lparr>as_uint8 := zeroing_as_uint8\<rparr>)
         (JObject [(''id'', JInt 256)]) playing_fire))) = 0
   \<and> current_effect (led (snd (handleSetEffect fake (JObject [(''id'', JInt 257)]) playing_fire)))
       = 1
   \<and> status_code (fst (handleSetEffect fake (JObject [(''id'', JInt 259)]) playing_fire)) = 400
   \<and> led (snd (handleSetEffect fake (JObject [(''id'', JInt 259)]) playing_fire))
       = led playing_fire"
  using handleSetEffect_checks_coerced_id
      [of "[(''id'', JInt 256)]" "JInt 256" fake playing_fire 256]
    handleSetEffect_checks_coerced_id
      [of "[(''id'', JInt 256)]" "JInt 256" "fake\<lparr>as_uint8 := zeroing_as_uint8\<rparr>"
          playing_fire 256]
    handleSetEffect_checks_coerced_id
      [of "[(''id'', JInt 257)]" "JInt 257" fake playing_fire 257]
    handleSetEffect_checks_coerced_id
      [of "[(''id'', JInt 259)]" "JInt 259" fake playing_fire 259]
  by (simp add: fake_ops playing_fire_def zeroing_as_uint8_def Let_def)

text \<open>
  The claim as stated fails on the body \<^verbatim>\<open>{"id": 259}\<close> with three effects and the conversion
  that returns 0 for what does not fit: 259 mod 256 is 3, which is not below 3, yet the
  request is answered 200 and effect 0 is selected and saved.
\<close>

theorem zeroing_conversion_accepts_id_259:
  "getNumEffects (fake\<lparr>as_uint8 := zeroing_as_uint8\<rparr>) (led boot) \<le> nat (259 mod 256)
   \<and> status_code (fst (handleSetEffect (fake\<lparr>as_uint8 := zeroing_as_uint8\<rparr>)
        (JObject [(''id'', JInt 259)]) boot)) = 200
   \<and> calls (snd (handleSetEffect (fake\<lparr>as_uint8 := zeroing_as_uint8\<rparr>)
        (JObject [(''id'', JInt 259)]) boot))
       = [GetNumEffects, SetEffect 0, SaveEffect 0, GetEffectName]
   \<and> stored_effect (nvs (snd (handleSetEffect (fake\<lparr>as_uint8 := zeroing_as_uint8\<rparr>)
        (JObject [(''id'', JInt 259)]) boot))) = Some 0"
  by (simp add: handleSetEffect_def Let_def facade_ops response_ops json_ops fake_ops
      zeroing_as_uint8_def)

subsection \<open>Validation failures\<close>

text \<open>
  C5. The claim says every validation failure returns before any call to the state facade
  or the persistence facade. That fails for the out-of-range id: to find the id out of range
  the handler has called \<^verbatim>\<open>getNumEffects\<close>. As amended: each of the five validation
  failures (no \<^verbatim>\<open>id\<close>, an id that is out of range once coerced, an empty parameter object,
  no \<^verbatim>\<open>on\<close>, no \<^verbatim>\<open>value\<close>) returns before any setter of the state facade and before
  any persistence call; the only facade call on a failure path is the query
  \<^verbatim>\<open>getNumEffects\<close> of the range check, and the four other failures make no facade call. The
  response is 400 with the one-member body \<^verbatim>\<open>{"error": message}\<close>; controller state and
  storage are as before.
\<close>

theorem validation_failures_change_nothing:
  "(\<not> containsKey (as_JsonObject json) ''id'' \<longrightarrow>
      rejected E ''Missing 'id' field'' [] w (handleSetEffect E json w))
   \<and> (containsKey (as_JsonObject json) ''id''
        \<and> getNumEffects E (led w) \<le> unat (as_uint8 E (subscript (as_JsonObject json) ''id'')) \<longrightarrow>
      rejected E ''Invalid effect ID'' [GetNumEffects] w (handleSetEffect E json w))
   \<and> (object_size (as_JsonObject json) = 0 \<longrightarrow>
      rejected E ''Empty parameters'' [] w (handleSetParams E json w))
   \<and> (\<not> containsKey (as_JsonObject json) ''on'' \<longrightarrow>
      rejected E ''Missing 'on' field'' [] w (handlePower E json w))
   \<and> (\<not> containsKey (as_JsonObject json) ''value'' \<longrightarrow>
      rejected E ''Missing 'value' field'' [] w (handleBrightness E json w))"
  by (simp add: rejected_def handleSetEffect_def handleSetParams_def handlePower_def
      handleBrightness_def Let_def facade_ops response_ops)

theorem validation_failures_change_nothing_witness:
  "rejected fake ''Missing 'id' field'' [] boot
     (handleSetEffect fake (JObject [(''effect'', JInt 1)]) boot)
   \<and> rejected fake ''Invalid effect ID'' [GetNumEffects] boot
     (handleSetEffect fake (JObject [(''id'', JInt 5)]) boot)
   \<and> rejected fake ''Empty parameters'' [] boot (handleSetParams fake (JObject []) boot)
   \<and> rejected fake ''Missing 'on' field'' [] boot (handlePower fake (JObject []) boot)
   \<and> rejected fake ''Missing 'value' field'' [] boot
     (handleBrightness fake (JObject [(''save'', JBool True)]) boot)"
  using validation_failures_change_nothing [of "JObject [(''effect'', JInt 1)]" fake boot]
    validation_failures_change_nothing [of "JObject [(''id'', JInt 5)]" fake boot]
    validation_failures_change_nothing [of "JObject []" fake boot]
    validation_failures_change_nothing [of "JObject [(''save'', JBool True)]" fake boot]
  by (simp add: json_ops fake_ops)

text \<open>
  The body \<^verbatim>\<open>{"id": 5}\<close> with three effects is a validation failure, answered 400, and the
  state facade has been called once on the way.
\<close>

theorem out_of_range_id_queries_state_facade:
  "status_code (fst (handleSetEffect fake (JObject [(''id'', JInt 5)]) boot)) = 400
   \<and> calls (snd (handleSetEffect fake (JObject [(''id'', JInt 5)]) boot)) = [GetNumEffects]
   \<and> calls (snd (handleSetEffect fake (JObject [(''id'', JInt 5)]) boot)) \<noteq> calls boot"
  by (simp add: handleSetEffect_def Let_def facade_ops response_ops json_ops fake_ops)

subsection \<open>Registration\<close>

text \<open>
  C8. Called with the null pointer, \<^verbatim>\<open>begin\<close> logs the error and returns: no fault, nothing
  registered. The null check is its only precondition check: on every server that is not
  null it makes all eight registrations and logs the banner, whatever the server already
  holds.
\<close>

theorem LEDApi_begin_null_check:
  "LEDApi_begin None lg = Inr (None, lg @ [LOG_ERROR ''LEDApi: Server is null!''])
   \<and> LEDApi_begin (Some srv) lg =
       Inr (Some (srv\<lparr>registered := registered srv @ LEDApi_routes\<rparr>),
            lg @ [LOG_SECTION ''Initializing LED API''] @ LEDApi_banner)"
  by (simp add: LEDApi_begin_def LEDApi_routes_def register_def Let_def)

theorem LEDApi_begin_null_check_witness:
  "LEDApi_begin None [] = Inr (None, [LOG_ERROR ''LEDApi: Server is null!''])
   \<and> (case LEDApi_begin (Some \<lparr>registered = []\<rparr>) [] of
        Inl f \<Rightarrow> False
      | Inr r \<Rightarrow> map_option registered (fst r) = Some LEDApi_routes)"
  using LEDApi_begin_null_check [of "[]" "\<lparr>registered = []\<rparr>"]
  by simp

end
